theory Spec2Isabelle
  imports Main
begin

section \<open>The sysdlog package: a severity-tagged writer to the systemd logger\<close>

text \<open>
  The Go package \<^verbatim>\<open>sysdlog\<close> (file \<^verbatim>\<open>sysdlog/sysdlog.go\<close>) is embedded
  function by function. A Go string is a sequence of bytes, so it is a \<^typ>\<open>string\<close>
  here and \<^verbatim>\<open>len\<close> is \<^const>\<open>length\<close>. Everything the package does to the
  outside (dialing the socket, writing a frame to it, closing it, printing to standard
  output) is recorded in an explicit world that every function takes and returns.
\<close>

subsection \<open>The environment: sockets and standard output\<close>

type_synonym handle = nat

text \<open>
  The two kinds of error value that reach the package: the one \<^verbatim>\<open>net.Dial\<close>
  returns and the one the connection's \<^verbatim>\<open>Write\<close> (called by
  \<^verbatim>\<open>fmt.Fprintf\<close>) returns.
\<close>

datatype error = ConnectionError string | WriteError string

datatype event =
    Dialed "error + handle"
  | Sent handle string "error option"
  | Closed handle "error option"
  | Printed string

text \<open>
  \<open>dial_err k\<close> and \<open>send_err k\<close> are the fate of the \<open>k\<close>-th call of
  \<^verbatim>\<open>net.Dial\<close> and of the \<open>k\<close>-th write on an open socket (\<open>None\<close>: it works);
  they are the part of the world the program does not control. \<open>trace\<close> lists what
  the program did, oldest first, and \<open>is_open\<close> tells which handles are open sockets.
\<close>

record world =
  dial_err :: "nat \<Rightarrow> string option"
  send_err :: "nat \<Rightarrow> string option"
  trace :: "event list"
  is_open :: "handle \<Rightarrow> bool"

fun dials :: "event list \<Rightarrow> (error + handle) list" where
  "dials [] = []"
| "dials (Dialed r # es) = r # dials es"
| "dials (_ # es) = dials es"

fun frames :: "event list \<Rightarrow> string list" where
  "frames [] = []"
| "frames (Sent h f r # es) = f # frames es"
| "frames (_ # es) = frames es"

fun delivered :: "event list \<Rightarrow> string list" where
  "delivered [] = []"
| "delivered (Sent h f None # es) = f # delivered es"
| "delivered (_ # es) = delivered es"

definition newline :: string where
  "newline = [CHR 0x0A]"

text \<open>\<^verbatim>\<open>net.Dial("unixgram", "/dev/log")\<close>: a fresh handle, or an error.\<close>

definition net_Dial :: "world \<Rightarrow> (error + handle) \<times> world" where
  "net_Dial w =
     (let k = length (dials (trace w)) in
      case dial_err w k of
        Some msg \<Rightarrow>
          (Inl (ConnectionError msg),
           w\<lparr>trace := trace w @ [Dialed (Inl (ConnectionError msg))]\<rparr>)
      | None \<Rightarrow>
          (Inr k, w\<lparr>trace := trace w @ [Dialed (Inr k)], is_open := (is_open w)(k := True)\<rparr>))"

text \<open>
  \<^verbatim>\<open>fmt.Fprintf(conn, ...)\<close> formats into a buffer and hands the buffer to the
  connection in one \<^verbatim>\<open>Write\<close>; on a datagram socket that is one datagram, sent
  whole or not at all. It returns the number of bytes written and the error.
\<close>

definition Fprintf :: "handle \<Rightarrow> string \<Rightarrow> world \<Rightarrow> (int \<times> error option) \<times> world" where
  "Fprintf c buf w =
     (let r = (if \<not> is_open w c then Some (WriteError ''use of closed network connection'')
               else map_option WriteError (send_err w (length (frames (trace w)))))
      in ((if r = None then int (length buf) else 0, r),
          w\<lparr>trace := trace w @ [Sent c buf r]\<rparr>))"

text \<open>\<^verbatim>\<open>conn.Close()\<close> on a handle.\<close>

definition conn_Close :: "handle \<Rightarrow> world \<Rightarrow> error option \<times> world" where
  "conn_Close c w =
     (let r = (if is_open w c then None
               else Some (WriteError ''use of closed network connection''))
      in (r, w\<lparr>trace := trace w @ [Closed c r], is_open := (is_open w)(c := False)\<rparr>))"

text \<open>\<^verbatim>\<open>fmt.Println(a, b)\<close> on two strings: a space between them, a newline after.\<close>

definition Println :: "string \<Rightarrow> string \<Rightarrow> world \<Rightarrow> world" where
  "Println a b w = w\<lparr>trace := trace w @ [Printed (a @ '' '' @ b @ newline)]\<rparr>"

text \<open>\<^verbatim>\<open>strings.HasSuffix\<close>, as the Go library defines it.\<close>

definition HasSuffix :: "string \<Rightarrow> string \<Rightarrow> bool" where
  "HasSuffix s suffix =
     (length s \<ge> length suffix \<and> drop (length s - length suffix) s = suffix)"

subsection \<open>Severities and the logger\<close>

type_synonym Severity = string

definition LOG_EMERG :: Severity where "LOG_EMERG = ''<0>''"
definition LOG_ALERT :: Severity where "LOG_ALERT = ''<1>''"
definition LOG_CRIT :: Severity where "LOG_CRIT = ''<2>''"
definition LOG_ERR :: Severity where "LOG_ERR = ''<3>''"
definition LOG_WARNING :: Severity where "LOG_WARNING = ''<4>''"
definition LOG_NOTICE :: Severity where "LOG_NOTICE = ''<5>''"
definition LOG_INFO :: Severity where "LOG_INFO = ''<6>''"
definition LOG_DEBUG :: Severity where "LOG_DEBUG = ''<7>''"

text \<open>The eight constants in the order of the \<^verbatim>\<open>const\<close> block.\<close>

definition severities :: "Severity list" where
  "severities = [LOG_EMERG, LOG_ALERT, LOG_CRIT, LOG_ERR,
                 LOG_WARNING, LOG_NOTICE, LOG_INFO, LOG_DEBUG]"

text \<open>
  The struct \<^verbatim>\<open>Sysdlog\<close>. \<open>conn = None\<close> is the nil interface value. The mutex
  \<^verbatim>\<open>mu\<close> is held for the whole of \<^verbatim>\<open>writeRetry\<close> and free otherwise, so
  in this sequential model each call is one atomic step and the field is left out.
\<close>

record Sysdlog =
  prefix :: string
  conn :: "handle option"

text \<open>
  A Go call either returns or panics (a method call through a nil interface is a nil
  pointer dereference).
\<close>

datatype 'a outcome = Returns 'a | Panics

text \<open>\<^verbatim>\<open>connect\<close> (lines 214-223): the handle is stored only when the dial worked.\<close>

definition connect :: "Sysdlog \<Rightarrow> world \<Rightarrow> error option \<times> Sysdlog \<times> world" where
  "connect sdl w =
     (case net_Dial w of
        (Inl err, w') \<Rightarrow> (Some err, sdl, w')
      | (Inr c, w') \<Rightarrow> (None, sdl\<lparr>conn := Some c\<rparr>, w'))"

text \<open>\<^verbatim>\<open>New\<close> (lines 48-58).\<close>

definition New :: "string \<Rightarrow> world \<Rightarrow> (error + Sysdlog) \<times> world" where
  "New p w =
     (let sdl = \<lparr>prefix = p, conn = None\<rparr> in
      case connect sdl w of
        (Some err, sdl', w') \<Rightarrow> (Inl err, w')
      | (None, sdl', w') \<Rightarrow> (Inr sdl', w'))"

text \<open>
  \<^verbatim>\<open>write\<close> (lines 201-211), named \<open>write_sdl\<close> here because
  \<open>write\<close> is a keyword of Isabelle. The result of \<^verbatim>\<open>Fprintf\<close> is dropped, as in
  the source, and the function returns \<^verbatim>\<open>len(m), nil\<close> whatever happened.
\<close>

definition write_sdl :: "Severity \<Rightarrow> string \<Rightarrow> Sysdlog \<Rightarrow> world
    \<Rightarrow> (int \<times> error option) outcome \<times> world" where
  "write_sdl s m sdl w =
     (let nl = (if \<not> HasSuffix m newline then newline else '''');
          w1 = Println ''prefix:'' (prefix sdl) w
      in case conn sdl of
           None \<Rightarrow> (Panics, w1)
         | Some c \<Rightarrow>
             (let (_, w2) = Fprintf c (s @ '' '' @ prefix sdl @ m @ nl) w1
              in (Returns (int (length m), None), w2)))"

text \<open>
  \<^verbatim>\<open>writeRetry\<close> (lines 180-199). \<open>reconnect\<close> is its second half (lines
  191-198), reached when there is no handle or the first write returned an error.
\<close>

definition reconnect :: "Severity \<Rightarrow> string \<Rightarrow> Sysdlog \<Rightarrow> world
    \<Rightarrow> (int \<times> error option) outcome \<times> Sysdlog \<times> world" where
  "reconnect s m sdl w =
     (case connect sdl w of
        (Some err, sdl', w') \<Rightarrow> (Returns (0, Some err), sdl', w')
      | (None, sdl', w') \<Rightarrow> (case write_sdl s m sdl' w' of (r, w'') \<Rightarrow> (r, sdl', w'')))"

definition writeRetry :: "Severity \<Rightarrow> string \<Rightarrow> Sysdlog \<Rightarrow> world
    \<Rightarrow> (int \<times> error option) outcome \<times> Sysdlog \<times> world" where
  "writeRetry s m sdl w =
     (if conn sdl \<noteq> None then
        (case write_sdl s m sdl w of
           (Returns (n, None), w1) \<Rightarrow> (Returns (n, None), sdl, w1)
         | (Returns (n, Some err), w1) \<Rightarrow> reconnect s m sdl w1
         | (Panics, w1) \<Rightarrow> (Panics, sdl, w1))
      else reconnect s m sdl w)"

text \<open>\<^verbatim>\<open>Close\<close> (lines 72-74): the handle stays in the struct.\<close>

definition Close :: "Sysdlog \<Rightarrow> world \<Rightarrow> unit outcome \<times> Sysdlog \<times> world" where
  "Close sdl w =
     (case conn sdl of
        None \<Rightarrow> (Panics, sdl, w)
      | Some c \<Rightarrow> (case conn_Close c w of (_, w') \<Rightarrow> (Returns (), sdl, w')))"

text \<open>\<^verbatim>\<open>Write\<close> (lines 78-80); \<^verbatim>\<open>string(b)\<close> keeps the bytes.\<close>

definition Write :: "string \<Rightarrow> Sysdlog \<Rightarrow> world
    \<Rightarrow> (int \<times> error option) outcome \<times> Sysdlog \<times> world" where
  "Write b sdl w = writeRetry LOG_ERR b sdl w"

subsection \<open>The sixteen convenience methods\<close>

text \<open>
  Each of \<^verbatim>\<open>Emerg\<close> .. \<^verbatim>\<open>Debug\<close> (lines 83-128) is
  \<^verbatim>\<open>_, err := sdl.writeRetry(LOG_X, m); return err\<close>.
\<close>

type_synonym logres = "error option outcome \<times> Sysdlog \<times> world"

definition Emerg :: "string \<Rightarrow> Sysdlog \<Rightarrow> world \<Rightarrow> logres" where
  "Emerg m sdl w =
     (case writeRetry LOG_EMERG m sdl w of
        (Returns (_, err), sdl', w') \<Rightarrow> (Returns err, sdl', w')
      | (Panics, sdl', w') \<Rightarrow> (Panics, sdl', w'))"

definition Alert :: "string \<Rightarrow> Sysdlog \<Rightarrow> world \<Rightarrow> logres" where
  "Alert m sdl w =
     (case writeRetry LOG_ALERT m sdl w of
        (Returns (_, err), sdl', w') \<Rightarrow> (Returns err, sdl', w')
      | (Panics, sdl', w') \<Rightarrow> (Panics, sdl', w'))"

definition Crit :: "string \<Rightarrow> Sysdlog \<Rightarrow> world \<Rightarrow> logres" where
  "Crit m sdl w =
     (case writeRetry LOG_CRIT m sdl w of
        (Returns (_, err), sdl', w') \<Rightarrow> (Returns err, sdl', w')
      | (Panics, sdl', w') \<Rightarrow> (Panics, sdl', w'))"

definition Err :: "string \<Rightarrow> Sysdlog \<Rightarrow> world \<Rightarrow> logres" where
  "Err m sdl w =
     (case writeRetry LOG_ERR m sdl w of
        (Returns (_, err), sdl', w') \<Rightarrow> (Returns err, sdl', w')
      | (Panics, sdl', w') \<Rightarrow> (Panics, sdl', w'))"

definition Warning :: "string \<Rightarrow> Sysdlog \<Rightarrow> world \<Rightarrow> logres" where
  "Warning m sdl w =
     (case writeRetry LOG_WARNING m sdl w of
        (Returns (_, err), sdl', w') \<Rightarrow> (Returns err, sdl', w')
      | (Panics, sdl', w') \<Rightarrow> (Panics, sdl', w'))"

definition Notice :: "string \<Rightarrow> Sysdlog \<Rightarrow> world \<Rightarrow> logres" where
  "Notice m sdl w =
     (case writeRetry LOG_NOTICE m sdl w of
        (Returns (_, err), sdl', w') \<Rightarrow> (Returns err, sdl', w')
      | (Panics, sdl', w') \<Rightarrow> (Panics, sdl', w'))"

definition Info :: "string \<Rightarrow> Sysdlog \<Rightarrow> world \<Rightarrow> logres" where
  "Info m sdl w =
     (case writeRetry LOG_INFO m sdl w of
        (Returns (_, err), sdl', w') \<Rightarrow> (Returns err, sdl', w')
      | (Panics, sdl', w') \<Rightarrow> (Panics, sdl', w'))"

definition Debug :: "string \<Rightarrow> Sysdlog \<Rightarrow> world \<Rightarrow> logres" where
  "Debug m sdl w =
     (case writeRetry LOG_DEBUG m sdl w of
        (Returns (_, err), sdl', w') \<Rightarrow> (Returns err, sdl', w')
      | (Panics, sdl', w') \<Rightarrow> (Panics, sdl', w'))"

text \<open>
  Each of \<^verbatim>\<open>Emergf\<close> .. \<^verbatim>\<open>Debugf\<close> (lines 131-176) is
  \<^verbatim>\<open>_, err := sdl.writeRetry(LOG_X, fmt.Sprintf(format, v...)); return err\<close>.
  \<^verbatim>\<open>fmt.Sprintf\<close> belongs to the Go library, not to this package: it is the
  parameter \<open>Sprintf\<close>, any function from a format string and its arguments to a string.
\<close>

definition Emergf :: "(string \<Rightarrow> 'v list \<Rightarrow> string) \<Rightarrow> string \<Rightarrow> 'v list
    \<Rightarrow> Sysdlog \<Rightarrow> world \<Rightarrow> logres" where
  "Emergf Sprintf format v sdl w =
     (case writeRetry LOG_EMERG (Sprintf format v) sdl w of
        (Returns (_, err), sdl', w') \<Rightarrow> (Returns err, sdl', w')
      | (Panics, sdl', w') \<Rightarrow> (Panics, sdl', w'))"

definition Alertf :: "(string \<Rightarrow> 'v list \<Rightarrow> string) \<Rightarrow> string \<Rightarrow> 'v list
    \<Rightarrow> Sysdlog \<Rightarrow> world \<Rightarrow> logres" where
  "Alertf Sprintf format v sdl w =
     (case writeRetry LOG_ALERT (Sprintf format v) sdl w of
        (Returns (_, err), sdl', w') \<Rightarrow> (Returns err, sdl', w')
      | (Panics, sdl', w') \<Rightarrow> (Panics, sdl', w'))"

definition Critf :: "(string \<Rightarrow> 'v list \<Rightarrow> string) \<Rightarrow> string \<Rightarrow> 'v list
    \<Rightarrow> Sysdlog \<Rightarrow> world \<Rightarrow> logres" where
  "Critf Sprintf format v sdl w =
     (case writeRetry LOG_CRIT (Sprintf format v) sdl w of
        (Returns (_, err), sdl', w') \<Rightarrow> (Returns err, sdl', w')
      | (Panics, sdl', w') \<Rightarrow> (Panics, sdl', w'))"

definition Errf :: "(string \<Rightarrow> 'v list \<Rightarrow> string) \<Rightarrow> string \<Rightarrow> 'v list
    \<Rightarrow> Sysdlog \<Rightarrow> world \<Rightarrow> logres" where
  "Errf Sprintf format v sdl w =
     (case writeRetry LOG_ERR (Sprintf format v) sdl w of
        (Returns (_, err), sdl', w') \<Rightarrow> (Returns err, sdl', w')
      | (Panics, sdl', w') \<Rightarrow> (Panics, sdl', w'))"

definition Warningf :: "(string \<Rightarrow> 'v list \<Rightarrow> string) \<Rightarrow> string \<Rightarrow> 'v list
    \<Rightarrow> Sysdlog \<Rightarrow> world \<Rightarrow> logres" where
  "Warningf Sprintf format v sdl w =
     (case writeRetry LOG_WARNING (Sprintf format v) sdl w of
        (Returns (_, err), sdl', w') \<Rightarrow> (Returns err, sdl', w')
      | (Panics, sdl', w') \<Rightarrow> (Panics, sdl', w'))"

definition Noticef :: "(string \<Rightarrow> 'v list \<Rightarrow> string) \<Rightarrow> string \<Rightarrow> 'v list
    \<Rightarrow> Sysdlog \<Rightarrow> world \<Rightarrow> logres" where
  "Noticef Sprintf format v sdl w =
     (case writeRetry LOG_NOTICE (Sprintf format v) sdl w of
        (Returns (_, err), sdl', w') \<Rightarrow> (Returns err, sdl', w')
      | (Panics, sdl', w') \<Rightarrow> (Panics, sdl', w'))"

definition Infof :: "(string \<Rightarrow> 'v list \<Rightarrow> string) \<Rightarrow> string \<Rightarrow> 'v list
    \<Rightarrow> Sysdlog \<Rightarrow> world \<Rightarrow> logres" where
  "Infof Sprintf format v sdl w =
     (case writeRetry LOG_INFO (Sprintf format v) sdl w of
        (Returns (_, err), sdl', w') \<Rightarrow> (Returns err, sdl', w')
      | (Panics, sdl', w') \<Rightarrow> (Panics, sdl', w'))"

definition Debugf :: "(string \<Rightarrow> 'v list \<Rightarrow> string) \<Rightarrow> string \<Rightarrow> 'v list
    \<Rightarrow> Sysdlog \<Rightarrow> world \<Rightarrow> logres" where
  "Debugf Sprintf format v sdl w =
     (case writeRetry LOG_DEBUG (Sprintf format v) sdl w of
        (Returns (_, err), sdl', w') \<Rightarrow> (Returns err, sdl', w')
      | (Panics, sdl', w') \<Rightarrow> (Panics, sdl', w'))"

text \<open>
  The general logging operation the specification calls \<open>LogAt\<close>: a severity and a
  message in, success or failure out. In the package it is \<^verbatim>\<open>writeRetry\<close> seen
  by a caller who looks at the error only.
\<close>

definition LogAt :: "Severity \<Rightarrow> string \<Rightarrow> Sysdlog \<Rightarrow> world \<Rightarrow> logres" where
  "LogAt s m sdl w =
     (let (r, sdl', w') = writeRetry s m sdl w
      in (case r of Returns x \<Rightarrow> Returns (snd x) | Panics \<Rightarrow> Panics, sdl', w'))"

subsection \<open>Sequences of calls on one logger\<close>

text \<open>
  A program that owns a logger calls its public methods one after the other. \<open>call\<close>
  names one such call, \<open>exec\<close> runs it and keeps the logger and the world, and
  \<open>exec_all\<close> runs a list of calls, stopping at a panic.
\<close>

datatype 'v call =
    CallWrite string
  | CallEmerg string
  | CallAlert string
  | CallCrit string
  | CallErr string
  | CallWarning string
  | CallNotice string
  | CallInfo string
  | CallDebug string
  | CallEmergf string "'v list"
  | CallAlertf string "'v list"
  | CallCritf string "'v list"
  | CallErrf string "'v list"
  | CallWarningf string "'v list"
  | CallNoticef string "'v list"
  | CallInfof string "'v list"
  | CallDebugf string "'v list"
  | CallClose

definition forget :: "'a outcome \<times> Sysdlog \<times> world \<Rightarrow> bool \<times> Sysdlog \<times> world" where
  "forget x = (case x of (r, sdl', w') \<Rightarrow> (r \<noteq> Panics, sdl', w'))"

fun exec :: "(string \<Rightarrow> 'v list \<Rightarrow> string) \<Rightarrow> 'v call \<Rightarrow> Sysdlog \<Rightarrow> world
    \<Rightarrow> bool \<times> Sysdlog \<times> world" where
  "exec Sprintf (CallWrite b) sdl w = forget (Write b sdl w)"
| "exec Sprintf (CallEmerg m) sdl w = forget (Emerg m sdl w)"
| "exec Sprintf (CallAlert m) sdl w = forget (Alert m sdl w)"
| "exec Sprintf (CallCrit m) sdl w = forget (Crit m sdl w)"
| "exec Sprintf (CallErr m) sdl w = forget (Err m sdl w)"
| "exec Sprintf (CallWarning m) sdl w = forget (Warning m sdl w)"
| "exec Sprintf (CallNotice m) sdl w = forget (Notice m sdl w)"
| "exec Sprintf (CallInfo m) sdl w = forget (Info m sdl w)"
| "exec Sprintf (CallDebug m) sdl w = forget (Debug m sdl w)"
| "exec Sprintf (CallEmergf format v) sdl w = forget (Emergf Sprintf format v sdl w)"
| "exec Sprintf (CallAlertf format v) sdl w = forget (Alertf Sprintf format v sdl w)"
| "exec Sprintf (CallCritf format v) sdl w = forget (Critf Sprintf format v sdl w)"
| "exec Sprintf (CallErrf format v) sdl w = forget (Errf Sprintf format v sdl w)"
| "exec Sprintf (CallWarningf format v) sdl w = forget (Warningf Sprintf format v sdl w)"
| "exec Sprintf (CallNoticef format v) sdl w = forget (Noticef Sprintf format v sdl w)"
| "exec Sprintf (CallInfof format v) sdl w = forget (Infof Sprintf format v sdl w)"
| "exec Sprintf (CallDebugf format v) sdl w = forget (Debugf Sprintf format v sdl w)"
| "exec Sprintf CallClose sdl w = forget (Close sdl w)"

fun exec_all :: "(string \<Rightarrow> 'v list \<Rightarrow> string) \<Rightarrow> 'v call list \<Rightarrow> Sysdlog \<Rightarrow> world
    \<Rightarrow> bool \<times> Sysdlog \<times> world" where
  "exec_all Sprintf [] sdl w = (True, sdl, w)"
| "exec_all Sprintf (c # cs) sdl w =
     (case exec Sprintf c sdl w of
        (True, sdl', w') \<Rightarrow> exec_all Sprintf cs sdl' w'
      | (False, sdl', w') \<Rightarrow> (False, sdl', w'))"

text \<open>The number of newline bytes at the end of a string.\<close>

definition trailing_newlines :: "string \<Rightarrow> nat" where
  "trailing_newlines xs = length (takeWhile (\<lambda>c. c = CHR 0x0A) (rev xs))"

text \<open>The events a call added to the trace.\<close>

definition since :: "world \<Rightarrow> world \<Rightarrow> event list" where
  "since w w' = drop (length (trace w)) (trace w')"


subsection \<open>Some worlds and loggers to run the code on\<close>

text \<open>\<open>up_world\<close>: nothing has happened yet, every dial and every send will work.\<close>

definition up_world :: world where
  "up_world = \<lparr>dial_err = (\<lambda>k. None), send_err = (\<lambda>k. None), trace = [],
               is_open = (\<lambda>h. False)\<rparr>"

text \<open>\<open>down_world\<close>: nothing has happened yet, and nobody listens on the socket path.\<close>

definition down_world :: world where
  "down_world = \<lparr>dial_err = (\<lambda>k. Some ''connect: no such file or directory''),
                 send_err = (\<lambda>k. None), trace = [], is_open = (\<lambda>h. False)\<rparr>"

text \<open>
  \<open>restarted_world\<close>: socket 0 was dialed while the daemon was up; the daemon has
  been restarted since, so the next send (the first one) is refused, and every later
  dial and send works.
\<close>

definition restarted_world :: world where
  "restarted_world =
     \<lparr>dial_err = (\<lambda>k. None),
      send_err = (\<lambda>k. if k = 0 then Some ''connection refused'' else None),
      trace = [Dialed (Inr 0)], is_open = (\<lambda>h. h = 0)\<rparr>"

definition app_logger :: Sysdlog where
  "app_logger = \<lparr>prefix = ''[app] '', conn = Some 0\<rparr>"

definition opened_world :: world where
  "opened_world = snd (New ''[app] '' up_world)"

definition closed_world :: world where
  "closed_world = snd (snd (Close app_logger opened_world))"

text \<open>
  What \<^verbatim>\<open>fmt.Sprintf\<close> does with a format that has no verb and with no
  arguments: it returns the format.
\<close>

definition no_verbs :: "string \<Rightarrow> string list \<Rightarrow> string" where
  "no_verbs format v = format"

section \<open>Properties\<close>

subsection \<open>Auxiliary facts\<close>

lemma frames_append: "frames (xs @ ys) = frames xs @ frames ys"
  by (induction xs rule: frames.induct) simp_all

lemma dials_append: "dials (xs @ ys) = dials xs @ dials ys"
  by (induction xs rule: dials.induct) simp_all

lemma HasSuffix_newline: "HasSuffix m newline \<longleftrightarrow> m \<noteq> [] \<and> last m = CHR 0x0A"
proof (cases m rule: rev_cases)
  case Nil
  then show ?thesis by (simp add: HasSuffix_def newline_def)
next
  case (snoc ys y)
  then show ?thesis by (auto simp add: HasSuffix_def newline_def)
qed

lemma since_append: "since w (w'\<lparr>trace := trace w @ es\<rparr>) = es"
  by (simp add: since_def)

lemma severity_tag:
  "k < 8 \<Longrightarrow> severities ! k = [CHR ''<'', ''01234567'' ! k, CHR ''>'']"
proof -
  assume "k < 8"
  then consider "k = 0" | "k = 1" | "k = 2" | "k = 3" | "k = 4" | "k = 5" | "k = 6" | "k = 7"
    by linarith
  then show ?thesis
    by cases (simp_all add: severities_def LOG_EMERG_def LOG_ALERT_def LOG_CRIT_def LOG_ERR_def
        LOG_WARNING_def LOG_NOTICE_def LOG_INFO_def LOG_DEBUG_def)
qed

text \<open>
  What one run of \<open>writeRetry\<close> does, by cases on the stored handle and on the dial.
\<close>

lemma writeRetry_handle:
  assumes "conn sdl = Some c"
  shows "\<exists>r w'. writeRetry s m sdl w = (Returns (int (length m), None), sdl, w') \<and>
     since w w' = [Printed (''prefix: '' @ prefix sdl @ newline),
                   Sent c (s @ '' '' @ prefix sdl @ m @ (if HasSuffix m newline then [] else newline)) r] \<and>
     (r = None \<longleftrightarrow> is_open w c \<and> send_err w (length (frames (trace w))) = None)"
  using assms
  by (simp add: writeRetry_def write_sdl_def Fprintf_def Println_def Let_def since_def frames_append)

lemma writeRetry_nil_down:
  assumes "conn sdl = None" and "dial_err w (length (dials (trace w))) = Some msg"
  shows "\<exists>w'. writeRetry s m sdl w = (Returns (0, Some (ConnectionError msg)), sdl, w') \<and>
     since w w' = [Dialed (Inl (ConnectionError msg))]"
  using assms
  by (simp add: writeRetry_def reconnect_def connect_def net_Dial_def Let_def since_def)

lemma writeRetry_nil_up:
  assumes "conn sdl = None" and "dial_err w (length (dials (trace w))) = None"
  shows "\<exists>r w'. writeRetry s m sdl w =
       (Returns (int (length m), None), sdl\<lparr>conn := Some (length (dials (trace w)))\<rparr>, w') \<and>
     since w w' = [Dialed (Inr (length (dials (trace w)))),
                   Printed (''prefix: '' @ prefix sdl @ newline),
                   Sent (length (dials (trace w)))
                     (s @ '' '' @ prefix sdl @ m @ (if HasSuffix m newline then [] else newline)) r]"
  using assms
  by (simp add: writeRetry_def reconnect_def connect_def net_Dial_def write_sdl_def Fprintf_def
      Println_def Let_def since_def)

lemma writeRetry_success:
  assumes "writeRetry s m sdl w = (Returns (n, None), sdl', w')"
  shows "n = int (length m) \<and> prefix sdl' = prefix sdl \<and>
     frames (since w w') = [s @ '' '' @ prefix sdl @ m @ (if HasSuffix m newline then [] else newline)]"
proof (cases "conn sdl")
  case None
  show ?thesis
  proof (cases "dial_err w (length (dials (trace w)))")
    case dn: None
    from writeRetry_nil_up[OF None dn, of s m] assms show ?thesis by auto
  next
    case (Some msg)
    from writeRetry_nil_down[OF None Some, of s m] assms show ?thesis by auto
  qed
next
  case (Some c)
  from writeRetry_handle[OF Some, of s m w] assms show ?thesis by auto
qed

lemma writeRetry_prefix:
  assumes "writeRetry s m sdl w = (r, sdl', w')"
  shows "prefix sdl' = prefix sdl"
proof (cases "conn sdl")
  case None
  show ?thesis
  proof (cases "dial_err w (length (dials (trace w)))")
    case dn: None
    from writeRetry_nil_up[OF None dn, of s m] assms show ?thesis by auto
  next
    case (Some msg)
    from writeRetry_nil_down[OF None Some, of s m] assms show ?thesis by auto
  qed
next
  case (Some c)
  from writeRetry_handle[OF Some, of s m w] assms show ?thesis by auto
qed

lemma writeRetry_bounded:
  assumes "writeRetry s m sdl w = (r, sdl', w')"
  shows "r \<noteq> Panics \<and> length (dials (since w w')) \<le> 1 \<and> length (frames (since w w')) \<le> 1"
proof (cases "conn sdl")
  case None
  show ?thesis
  proof (cases "dial_err w (length (dials (trace w)))")
    case dn: None
    from writeRetry_nil_up[OF None dn, of s m] assms show ?thesis by auto
  next
    case (Some msg)
    from writeRetry_nil_down[OF None Some, of s m] assms show ?thesis by auto
  qed
next
  case (Some c)
  from writeRetry_handle[OF Some, of s m w] assms show ?thesis by auto
qed



lemma takeWhile_stop: "\<not> P x \<Longrightarrow> takeWhile P (as @ x # bs) = takeWhile P as"
  by (induction as) simp_all

lemma trailing_newlines_snoc:
  "trailing_newlines (xs @ newline) = Suc (trailing_newlines xs)"
  by (simp add: trailing_newlines_def newline_def)

lemma trailing_newlines_after_space:
  "trailing_newlines (s @ '' '' @ ys) = trailing_newlines ys"
  by (simp add: trailing_newlines_def takeWhile_stop)

lemma trailing_newlines_frame:
  "trailing_newlines (s @ '' '' @ p @ m @ (if HasSuffix m newline then [] else newline)) =
     trailing_newlines (p @ m) + (if HasSuffix m newline then 0 else 1)"
proof (cases "HasSuffix m newline")
  case True
  then show ?thesis using trailing_newlines_after_space[of s "p @ m"] by simp
next
  case False
  have "trailing_newlines ((s @ '' '' @ p @ m) @ newline) = Suc (trailing_newlines (s @ '' '' @ p @ m))"
    by (rule trailing_newlines_snoc)
  also have "trailing_newlines (s @ '' '' @ p @ m) = trailing_newlines (p @ m)"
    using trailing_newlines_after_space[of s "p @ m"] by simp
  finally show ?thesis using False by simp
qed

lemma HasSuffix_frame:
  "HasSuffix (s @ '' '' @ p @ m @ (if HasSuffix m newline then [] else newline)) newline"
  by (simp add: HasSuffix_newline) (simp add: newline_def)

lemma trailing_newlines_plain:
  assumes "m \<noteq> []" and "m \<noteq> newline" and "\<not> HasSuffix m (newline @ newline)"
  shows "trailing_newlines (p @ m) = (if HasSuffix m newline then 1 else 0)"
proof -
  from assms(1) obtain ys y where m: "m = ys @ [y]" by (cases m rule: rev_cases) auto
  show ?thesis
  proof (cases "y = CHR 0x0A")
    case False
    with m show ?thesis by (simp add: trailing_newlines_def HasSuffix_newline)
  next
    case True
    with m assms(2) have "ys \<noteq> []" by (auto simp add: newline_def)
    then obtain zs z where ys: "ys = zs @ [z]" by (cases ys rule: rev_cases) auto
    with m True assms(3) have "z \<noteq> CHR 0x0A" by (auto simp add: HasSuffix_def newline_def)
    with m ys True show ?thesis by (simp add: trailing_newlines_def HasSuffix_newline)
  qed
qed

lemma run_app_logger:
  "writeRetry s m app_logger w =
     (Returns (int (length m), None), app_logger, snd (snd (writeRetry s m app_logger w)))"
proof -
  have c: "conn app_logger = Some 0" by (simp add: app_logger_def)
  from writeRetry_handle[OF c, of s m w] show ?thesis by auto
qed

lemma up_New: "New ''[app] '' up_world = (Inr app_logger, opened_world)"
  by (simp add: opened_world_def New_def connect_def net_Dial_def up_world_def app_logger_def)

lemma opened_Close: "Close app_logger opened_world = (Returns (), app_logger, closed_world)"
  by (simp add: closed_world_def Close_def conn_Close_def app_logger_def Let_def)

lemma is_open_opened: "is_open opened_world 0"
  by (simp add: opened_world_def New_def connect_def net_Dial_def up_world_def)

lemma is_open_closed: "\<not> is_open closed_world 0"
  by (simp add: closed_world_def Close_def conn_Close_def app_logger_def Let_def)

lemmas plain_defs = Emerg_def Alert_def Crit_def Err_def Warning_def Notice_def Info_def Debug_def
lemmas format_defs = Emergf_def Alertf_def Critf_def Errf_def Warningf_def Noticef_def Infof_def
  Debugf_def

lemma forget_logger: "forget x = (ok, sdl', w') \<Longrightarrow> fst (snd x) = sdl'"
  by (auto simp add: forget_def split: prod.splits)

lemma writeRetry_keeps_prefix: "prefix (fst (snd (writeRetry s m sdl w))) = prefix sdl"
  using writeRetry_prefix[of s m sdl w] by (cases "writeRetry s m sdl w") auto

lemma dropped_count_logger:
  "fst (snd (case x of
              (Returns (_, err), sdl', w') \<Rightarrow> (Returns err, sdl', w')
            | (Panics, sdl', w') \<Rightarrow> (Panics, sdl', w'))) = fst (snd x)"
  by (auto split: prod.splits outcome.splits)

lemma Close_keeps_prefix: "prefix (fst (snd (Close sdl w))) = prefix sdl"
  by (auto simp add: Close_def split: option.splits prod.splits)

lemma exec_prefix:
  assumes "exec Sprintf c sdl w = (ok, sdl', w')"
  shows "prefix sdl' = prefix sdl"
  using assms
  by (cases c)
    (auto dest!: forget_logger
      simp add: Write_def plain_defs format_defs dropped_count_logger writeRetry_keeps_prefix
        Close_keeps_prefix)

lemma exec_all_prefix:
  "exec_all Sprintf cs sdl w = (ok, sdl', w') \<Longrightarrow> prefix sdl' = prefix sdl"
proof (induction cs arbitrary: sdl w)
  case Nil
  then show ?case by simp
next
  case (Cons c cs)
  obtain b sdl1 w1 where e: "exec Sprintf c sdl w = (b, sdl1, w1)"
    by (cases "exec Sprintf c sdl w") auto
  from exec_prefix[OF e] have p: "prefix sdl1 = prefix sdl" .
  show ?case
  proof (cases b)
    case True
    with Cons.prems e have "exec_all Sprintf cs sdl1 w1 = (ok, sdl', w')" by simp
    from Cons.IH[OF this] p show ?thesis by simp
  next
    case False
    with Cons.prems e p show ?thesis by simp
  qed
qed

lemma New_prefix: "New p w = (Inr sdl, w1) \<Longrightarrow> prefix sdl = p"
  by (auto simp add: New_def connect_def Let_def split: prod.splits sum.splits option.splits)


subsection \<open>The frame on the wire\<close>

text \<open>
  Claim C1. For each of the eight severities (number \<open>k\<close> of the \<^verbatim>\<open>const\<close>
  block, 0 for \<^verbatim>\<open>LOG_EMERG\<close> and 7 for \<^verbatim>\<open>LOG_DEBUG\<close>), every prefix
  and every message, a logging call that returns without error has handed exactly one
  frame to the connection: the three characters \<open><k>\<close>, one space, the prefix as it is,
  the message, and a newline if the message does not end in one. In particular a logger
  made with the prefix \<open>[app] \<close> that logs \<open>hello\<close> with \<open>Info\<close> sends
  \<open><6> [app] hello\<close> and a newline.
\<close>

theorem frame_layout:
  "(k < 8 \<and> writeRetry (severities ! k) m sdl w = (Returns (n, None), sdl', w') \<longrightarrow>
      frames (since w w') =
        [[CHR ''<'', ''01234567'' ! k, CHR ''>'', CHR '' ''] @ prefix sdl @ m @
         (if HasSuffix m newline then [] else newline)]) \<and>
   severities ! 0 = LOG_EMERG \<and> severities ! 7 = LOG_DEBUG \<and>
   (New ''[app] '' w0 = (Inr lg, w1) \<and> Info ''hello'' lg w1 = (Returns None, lg2, w2) \<longrightarrow>
      frames (since w1 w2) = [''<6> [app] hello'' @ newline])"
proof (intro conjI impI)
  assume a: "k < 8 \<and> writeRetry (severities ! k) m sdl w = (Returns (n, None), sdl', w')"
  then have "frames (since w w') =
      [severities ! k @ '' '' @ prefix sdl @ m @ (if HasSuffix m newline then [] else newline)]"
    using writeRetry_success by blast
  with a show "frames (since w w') =
        [[CHR ''<'', ''01234567'' ! k, CHR ''>'', CHR '' ''] @ prefix sdl @ m @
         (if HasSuffix m newline then [] else newline)]"
    by (simp add: severity_tag)
next
  show "severities ! 0 = LOG_EMERG" by (simp add: severities_def)
next
  show "severities ! 7 = LOG_DEBUG" by (simp add: severities_def)
next
  assume a: "New ''[app] '' w0 = (Inr lg, w1) \<and> Info ''hello'' lg w1 = (Returns None, lg2, w2)"
  then have p: "prefix lg = ''[app] ''"
    by (auto simp add: New_def connect_def Let_def split: prod.splits sum.splits option.splits)
  from a obtain n where "writeRetry LOG_INFO ''hello'' lg w1 = (Returns (n, None), lg2, w2)"
    by (auto simp add: Info_def split: prod.splits outcome.splits)
  from writeRetry_success[OF this] p
  show "frames (since w1 w2) = [''<6> [app] hello'' @ newline]"
    by (simp add: LOG_INFO_def HasSuffix_newline)
qed

theorem frame_layout_witness:
  "writeRetry (severities ! 6) ''hello'' app_logger opened_world =
     (Returns (5, None), app_logger,
      snd (snd (writeRetry (severities ! 6) ''hello'' app_logger opened_world))) \<and>
   New ''[app] '' up_world = (Inr app_logger, opened_world) \<and>
   Info ''hello'' app_logger opened_world =
     (Returns None, app_logger, snd (snd (Info ''hello'' app_logger opened_world))) \<and>
   frames (since opened_world (snd (snd (writeRetry (severities ! 6) ''hello'' app_logger opened_world))))
     = [''<6> [app] hello'' @ newline] \<and>
   frames (since opened_world (snd (snd (Info ''hello'' app_logger opened_world))))
     = [''<6> [app] hello'' @ newline]"
proof -
  let ?w2 = "snd (snd (writeRetry (severities ! 6) ''hello'' app_logger opened_world))"
  let ?w3 = "snd (snd (Info ''hello'' app_logger opened_world))"
  have c: "conn app_logger = Some 0" by (simp add: app_logger_def)
  have h1: "writeRetry (severities ! 6) ''hello'' app_logger opened_world =
     (Returns (5, None), app_logger, ?w2)"
    using writeRetry_handle[OF c, of "severities ! 6" "''hello''" opened_world] by auto
  have h2: "New ''[app] '' up_world = (Inr app_logger, opened_world)"
    by (simp add: opened_world_def New_def connect_def net_Dial_def up_world_def app_logger_def)
  have h3: "Info ''hello'' app_logger opened_world = (Returns None, app_logger, ?w3)"
    using writeRetry_handle[OF c, of LOG_INFO "''hello''" opened_world]
    by (auto simp add: Info_def)
  have p: "prefix app_logger = ''[app] ''" by (simp add: app_logger_def)
  from frame_layout[where k = 6 and m = "''hello''" and sdl = app_logger and w = opened_world
      and n = 5 and sdl' = app_logger and w' = ?w2 and ?w0.0 = up_world and lg = app_logger
      and ?w1.0 = opened_world and ?lg2.0 = app_logger and ?w2.0 = ?w3] h1 h2 h3 p
  show ?thesis by (simp add: HasSuffix_newline)
qed


subsection \<open>A stored handle is never replaced\<close>

text \<open>
  Claim C10. When the stored handle is not nil at the start of a logging call, the call
  returns the length of the message and no error, keeps the logger as it is, dials
  nothing, and does so whether the transport took the frame (\<open>r = None\<close>) or not:
  it prints the prefix and sends one frame, and that is all.
\<close>

theorem live_handle_always_succeeds:
  assumes "conn sdl \<noteq> None"
  shows "\<exists>w' c f r. writeRetry s m sdl w = (Returns (int (length m), None), sdl, w') \<and>
     dials (since w w') = [] \<and>
     since w w' = [Printed (''prefix: '' @ prefix sdl @ newline), Sent c f r] \<and>
     (r = None \<longleftrightarrow> is_open w c \<and> send_err w (length (frames (trace w))) = None)"
proof -
  from assms obtain c where c: "conn sdl = Some c" by auto
  from writeRetry_handle[OF c, of s m w] show ?thesis by auto
qed


theorem live_handle_always_succeeds_witness:
  "conn app_logger \<noteq> None \<and>
   writeRetry LOG_INFO ''hello'' app_logger restarted_world =
     (Returns (5, None), app_logger,
      snd (snd (writeRetry LOG_INFO ''hello'' app_logger restarted_world))) \<and>
   dials (since restarted_world
     (snd (snd (writeRetry LOG_INFO ''hello'' app_logger restarted_world)))) = [] \<and>
   delivered (since restarted_world
     (snd (snd (writeRetry LOG_INFO ''hello'' app_logger restarted_world)))) = []"
proof -
  have c: "conn app_logger \<noteq> None" by (simp add: app_logger_def)
  have e: "send_err restarted_world (length (frames (trace restarted_world))) \<noteq> None"
    by (simp add: restarted_world_def)
  from live_handle_always_succeeds[OF c, of LOG_INFO "''hello''" restarted_world] c e
  show ?thesis by auto
qed


subsection \<open>The trailing newline\<close>

text \<open>
  The claim C2 as it is written says that every frame has exactly one trailing newline.
  A message that ends in two newlines is passed through as it is, and its frame ends in
  two.
\<close>

theorem two_trailing_newlines_counterexample:
  "fst (writeRetry LOG_INFO (''hello'' @ newline @ newline) app_logger opened_world)
     = Returns (7, None) \<and>
   frames (since opened_world
     (snd (snd (writeRetry LOG_INFO (''hello'' @ newline @ newline) app_logger opened_world))))
     = [''<6> [app] hello'' @ newline @ newline] \<and>
   trailing_newlines (''<6> [app] hello'' @ newline @ newline) = 2"
proof -
  let ?m = "''hello'' @ newline @ newline"
  let ?w' = "snd (snd (writeRetry LOG_INFO ?m app_logger opened_world))"
  have h: "writeRetry LOG_INFO ?m app_logger opened_world = (Returns (7, None), app_logger, ?w')"
    using run_app_logger[of LOG_INFO ?m opened_world] by (simp add: newline_def)
  have s: "HasSuffix ?m newline" by (simp add: HasSuffix_newline) (simp add: newline_def)
  have p: "prefix app_logger = ''[app] ''" by (simp add: app_logger_def)
  have "frames (since opened_world ?w') = [''<6> [app] hello'' @ newline @ newline]"
    using writeRetry_success[OF h] s p by (simp add: LOG_INFO_def)
  moreover have "trailing_newlines (''<6> [app] hello'' @ newline @ newline) = 2"
    by (simp add: trailing_newlines_def newline_def)
  moreover have "fst (writeRetry LOG_INFO ?m app_logger opened_world) = Returns (7, None)"
    using h by (metis fst_conv)
  ultimately show ?thesis by simp
qed

text \<open>
  Claim C2, amended. A successful call sends one frame \<open>f\<close>. When the message does not
  end in a newline, \<open>f\<close> is tag, space, prefix and message followed by one appended
  newline; when it does, nothing is appended. \<open>f\<close> always ends in a newline, and it has
  as many trailing newlines as prefix and message together, plus the appended one: exactly
  one whenever the message is not empty, is not a lone newline and does not end in two
  newlines.
\<close>

theorem newline_only_if_absent:
  assumes "writeRetry s m sdl w = (Returns (n, None), sdl', w')"
  shows "\<exists>f. frames (since w w') = [f] \<and>
     f = s @ '' '' @ prefix sdl @ m @ (if HasSuffix m newline then [] else newline) \<and>
     HasSuffix f newline \<and>
     trailing_newlines f =
       trailing_newlines (prefix sdl @ m) + (if HasSuffix m newline then 0 else 1) \<and>
     (m \<noteq> [] \<and> m \<noteq> newline \<and> \<not> HasSuffix m (newline @ newline) \<longrightarrow> trailing_newlines f = 1)"
proof -
  let ?f = "s @ '' '' @ prefix sdl @ m @ (if HasSuffix m newline then [] else newline)"
  have 1: "frames (since w w') = [?f]" using writeRetry_success[OF assms] by simp
  have 2: "HasSuffix ?f newline" by (rule HasSuffix_frame)
  have 3: "trailing_newlines ?f =
       trailing_newlines (prefix sdl @ m) + (if HasSuffix m newline then 0 else 1)"
    by (rule trailing_newlines_frame)
  have 4: "m \<noteq> [] \<and> m \<noteq> newline \<and> \<not> HasSuffix m (newline @ newline) \<longrightarrow> trailing_newlines ?f = 1"
    using 3 trailing_newlines_plain[of m "prefix sdl"] by auto
  from 1 2 3 4 show ?thesis by blast
qed

theorem newline_only_if_absent_witness:
  "writeRetry LOG_INFO ''hello'' app_logger opened_world =
     (Returns (5, None), app_logger, snd (snd (writeRetry LOG_INFO ''hello'' app_logger opened_world))) \<and>
   map trailing_newlines
     (frames (since opened_world (snd (snd (writeRetry LOG_INFO ''hello'' app_logger opened_world)))))
     = [1]"
proof -
  let ?w' = "snd (snd (writeRetry LOG_INFO ''hello'' app_logger opened_world))"
  have h: "writeRetry LOG_INFO ''hello'' app_logger opened_world = (Returns (5, None), app_logger, ?w')"
    using run_app_logger[of LOG_INFO "''hello''" opened_world] by simp
  have n: "''hello'' \<noteq> newline" by (simp add: newline_def)
  have d: "\<not> HasSuffix ''hello'' (newline @ newline)" by (simp add: HasSuffix_def newline_def)
  from newline_only_if_absent[OF h] n d h show ?thesis by auto
qed

subsection \<open>A failed transport write\<close>

text \<open>
  Claim C3 describes \<^verbatim>\<open>writeRetry\<close> as its comments do: a write on the stored
  handle that fails is followed by one dial and one more write. The bounds of the claim
  hold (\<open>writeRetry_bounded\<close>), but \<^verbatim>\<open>write\<close> never reports the failure, so
  the dial does not happen. Here the daemon was restarted after the logger dialed socket
  0: the send on socket 0 is refused, a dial would work, and the call returns 5 and no
  error after one refused send and no dial.
\<close>

theorem stale_handle_not_redialed:
  "fst (writeRetry LOG_INFO ''hello'' app_logger restarted_world) = Returns (5, None) \<and>
   since restarted_world (snd (snd (writeRetry LOG_INFO ''hello'' app_logger restarted_world))) =
     [Printed (''prefix: [app] '' @ newline),
      Sent 0 (''<6> [app] hello'' @ newline) (Some (WriteError ''connection refused''))]"
  by (simp add: writeRetry_def write_sdl_def Fprintf_def Println_def app_logger_def
      restarted_world_def LOG_INFO_def since_def HasSuffix_def newline_def Let_def)

text \<open>
  Claim C4 says that a call either hands the whole frame to the transport or fails, and
  that a failed write on an open connection reaches the caller as an error. The frame is
  handed over whole, in one \<^verbatim>\<open>Fprintf\<close>; but when \<^verbatim>\<open>Fprintf\<close> reports
  an error, \<^verbatim>\<open>write\<close> drops it: \<^verbatim>\<open>Write\<close> on the refused socket returns
  4 and no error, and nothing was delivered.
\<close>

theorem write_error_swallowed:
  "fst (Fprintf 0 (''<3> [app] oops'' @ newline)
          (Println ''prefix:'' (prefix app_logger) restarted_world))
     = (0, Some (WriteError ''connection refused'')) \<and>
   fst (Write ''oops'' app_logger restarted_world) = Returns (4, None) \<and>
   frames (since restarted_world (snd (snd (Write ''oops'' app_logger restarted_world))))
     = [''<3> [app] oops'' @ newline] \<and>
   delivered (since restarted_world (snd (snd (Write ''oops'' app_logger restarted_world)))) = []"
  by (simp add: Write_def writeRetry_def write_sdl_def Fprintf_def Println_def app_logger_def
      restarted_world_def LOG_ERR_def since_def HasSuffix_def newline_def Let_def)

text \<open>
  Claim C5 says that a logging call after \<^verbatim>\<open>Close\<close> does not silently succeed
  and dials again. \<^verbatim>\<open>Close\<close> leaves the closed handle in the struct, the write
  on it fails with "use of closed network connection", and \<^verbatim>\<open>write\<close> drops that
  error: \<^verbatim>\<open>Info\<close> returns no error, nothing is dialed and nothing is delivered.
\<close>

theorem write_after_Close_not_redialed:
  "New ''[app] '' up_world = (Inr app_logger, opened_world) \<and>
   Close app_logger opened_world = (Returns (), app_logger, closed_world) \<and>
   fst (Info ''hello'' app_logger closed_world) = Returns None \<and>
   since closed_world (snd (snd (Info ''hello'' app_logger closed_world))) =
     [Printed (''prefix: [app] '' @ newline),
      Sent 0 (''<6> [app] hello'' @ newline)
        (Some (WriteError ''use of closed network connection''))]"
proof -
  have c: "conn app_logger = Some 0" and p: "prefix app_logger = ''[app] ''"
    by (simp_all add: app_logger_def)
  have "fst (Info ''hello'' app_logger closed_world) = Returns None \<and>
    since closed_world (snd (snd (Info ''hello'' app_logger closed_world))) =
     [Printed (''prefix: [app] '' @ newline),
      Sent 0 (''<6> [app] hello'' @ newline)
        (Some (WriteError ''use of closed network connection''))]"
    using is_open_closed
    by (simp add: Info_def writeRetry_def write_sdl_def Fprintf_def Println_def c p
      LOG_INFO_def since_def HasSuffix_def newline_def Let_def)
  with up_New opened_Close show ?thesis by simp
qed

subsection \<open>Construction\<close>

text \<open>
  Claim C6. \<^verbatim>\<open>New\<close> dials exactly once. When that dial fails, \<^verbatim>\<open>New\<close>
  returns the connection error and no logger; when it works, \<^verbatim>\<open>New\<close> returns a
  logger whose prefix is the given string and whose handle is an open socket.
\<close>

theorem New_eager:
  "(dial_err w (length (dials (trace w))) = Some msg \<longrightarrow>
      (\<exists>w'. New p w = (Inl (ConnectionError msg), w') \<and>
            since w w' = [Dialed (Inl (ConnectionError msg))])) \<and>
   (dial_err w (length (dials (trace w))) = None \<longrightarrow>
      (\<exists>c w'. New p w = (Inr \<lparr>prefix = p, conn = Some c\<rparr>, w') \<and> is_open w' c \<and>
            since w w' = [Dialed (Inr c)]))"
  by (simp add: New_def connect_def net_Dial_def since_def Let_def)

theorem New_eager_witness:
  "fst (New ''[app] '' down_world) = Inl (ConnectionError ''connect: no such file or directory'') \<and>
   since down_world (snd (New ''[app] '' down_world)) =
     [Dialed (Inl (ConnectionError ''connect: no such file or directory''))] \<and>
   fst (New ''[app] '' up_world) = Inr \<lparr>prefix = ''[app] '', conn = Some 0\<rparr> \<and>
   is_open (snd (New ''[app] '' up_world)) 0 \<and>
   since up_world (snd (New ''[app] '' up_world)) = [Dialed (Inr 0)]"
proof -
  have d: "dial_err down_world (length (dials (trace down_world)))
      = Some ''connect: no such file or directory''"
    by (simp add: down_world_def)
  have u: "dial_err up_world (length (dials (trace up_world))) = None"
    by (simp add: up_world_def)
  from New_eager[of down_world "''connect: no such file or directory''" "''[app] ''"] d
  have 1: "fst (New ''[app] '' down_world) = Inl (ConnectionError ''connect: no such file or directory'') \<and>
   since down_world (snd (New ''[app] '' down_world)) =
     [Dialed (Inl (ConnectionError ''connect: no such file or directory''))]"
    by auto
  from New_eager[of up_world _ "''[app] ''"] u
  obtain c w' where n: "New ''[app] '' up_world = (Inr \<lparr>prefix = ''[app] '', conn = Some c\<rparr>, w')"
    and o: "is_open w' c" and s: "since up_world w' = [Dialed (Inr c)]"
    by auto
  have "c = 0" using n up_New by (simp add: app_logger_def)
  with n o s 1 show ?thesis by simp
qed

subsection \<open>The writer interface\<close>

text \<open>
  Claim C7. For every buffer, \<^verbatim>\<open>Write\<close> sends the frame with the tag of
  \<^verbatim>\<open>LOG_ERR\<close>, \<open><3>\<close>, whatever the buffer holds, and when it returns no error
  the count it returns is the length of the buffer: tag, space, prefix and the appended
  newline are not counted.
\<close>

theorem Write_count:
  assumes "Write b sdl w = (Returns (n, None), sdl', w')"
  shows "n = int (length b) \<and>
     frames (since w w') =
       [''<3> '' @ prefix sdl @ b @ (if HasSuffix b newline then [] else newline)]"
  using writeRetry_success[of LOG_ERR b sdl w n sdl' w'] assms
  by (simp add: Write_def LOG_ERR_def)

theorem Write_count_witness:
  "Write (''oops'' @ newline) app_logger opened_world =
     (Returns (5, None), app_logger, snd (snd (Write (''oops'' @ newline) app_logger opened_world))) \<and>
   frames (since opened_world (snd (snd (Write (''oops'' @ newline) app_logger opened_world))))
     = [''<3> [app] oops'' @ newline]"
proof -
  let ?b = "''oops'' @ newline"
  let ?w' = "snd (snd (Write ?b app_logger opened_world))"
  have h: "Write ?b app_logger opened_world = (Returns (5, None), app_logger, ?w')"
    using run_app_logger[of LOG_ERR ?b opened_world] by (simp add: Write_def newline_def)
  have s: "HasSuffix ?b newline" by (simp add: HasSuffix_newline) (simp add: newline_def)
  have p: "prefix app_logger = ''[app] ''" by (simp add: app_logger_def)
  from Write_count[OF h] s p h show ?thesis by simp
qed

subsection \<open>The convenience methods\<close>

text \<open>
  Claim C8. Each of \<^verbatim>\<open>Emerg\<close> .. \<^verbatim>\<open>Debug\<close> is the general logging
  operation at its own severity: same result, same logger, same world. Each of
  \<^verbatim>\<open>Emergf\<close> .. \<^verbatim>\<open>Debugf\<close> is the plain method applied to what
  \<^verbatim>\<open>Sprintf\<close> makes of the format and the arguments.
\<close>

theorem convenience_methods:
  "Emerg m sdl w = LogAt LOG_EMERG m sdl w \<and>
   Alert m sdl w = LogAt LOG_ALERT m sdl w \<and>
   Crit m sdl w = LogAt LOG_CRIT m sdl w \<and>
   Err m sdl w = LogAt LOG_ERR m sdl w \<and>
   Warning m sdl w = LogAt LOG_WARNING m sdl w \<and>
   Notice m sdl w = LogAt LOG_NOTICE m sdl w \<and>
   Info m sdl w = LogAt LOG_INFO m sdl w \<and>
   Debug m sdl w = LogAt LOG_DEBUG m sdl w \<and>
   Emergf Sprintf format v sdl w = Emerg (Sprintf format v) sdl w \<and>
   Alertf Sprintf format v sdl w = Alert (Sprintf format v) sdl w \<and>
   Critf Sprintf format v sdl w = Crit (Sprintf format v) sdl w \<and>
   Errf Sprintf format v sdl w = Err (Sprintf format v) sdl w \<and>
   Warningf Sprintf format v sdl w = Warning (Sprintf format v) sdl w \<and>
   Noticef Sprintf format v sdl w = Notice (Sprintf format v) sdl w \<and>
   Infof Sprintf format v sdl w = Info (Sprintf format v) sdl w \<and>
   Debugf Sprintf format v sdl w = Debug (Sprintf format v) sdl w"
  by (simp add: plain_defs format_defs LogAt_def split: prod.splits outcome.splits)

subsection \<open>The prefix\<close>

text \<open>
  Claim C9. Whatever public methods are called on a logger, in whatever order
  (\<^verbatim>\<open>Write\<close>, the sixteen logging methods with the dials they may make, and
  \<^verbatim>\<open>Close\<close>), the prefix stays what it was; for a logger that \<^verbatim>\<open>New\<close>
  returned it stays the string given to \<^verbatim>\<open>New\<close>.
\<close>

theorem prefix_never_changes:
  "(exec_all Sprintf cs sdl w = (ok, sdl', w') \<longrightarrow> prefix sdl' = prefix sdl) \<and>
   (New p w0 = (Inr lg, w1) \<and> exec_all Sprintf cs lg w1 = (ok2, lg', w2) \<longrightarrow> prefix lg' = p)"
  using exec_all_prefix New_prefix by metis

theorem prefix_never_changes_witness:
  "New ''[app] '' up_world = (Inr app_logger, opened_world) \<and>
   prefix (fst (snd (exec_all no_verbs
       [CallInfo ''hello'', CallClose, CallWrite ''late'', CallDebugf ''bye'' []]
       app_logger opened_world))) = ''[app] '' \<and>
   prefix (fst (snd (exec_all no_verbs [CallCrit ''x'', CallClose]
       \<lparr>prefix = ''p'', conn = None\<rparr> down_world))) = ''p''"
proof -
  let ?cs = "[CallInfo ''hello'', CallClose, CallWrite ''late'', CallDebugf ''bye'' []]"
  let ?x = "exec_all no_verbs ?cs app_logger opened_world"
  let ?ds = "[CallCrit ''x'', CallClose] :: string call list"
  let ?y = "exec_all no_verbs ?ds \<lparr>prefix = ''p'', conn = None\<rparr> down_world"
  have x: "?x = (fst ?x, fst (snd ?x), snd (snd ?x))" by simp
  have y: "?y = (fst ?y, fst (snd ?y), snd (snd ?y))" by simp
  from prefix_never_changes[where Sprintf = no_verbs and cs = ?cs and p = "''[app] ''"
      and ?w0.0 = up_world and lg = app_logger and ?w1.0 = opened_world
      and ?ok2.0 = "fst ?x" and lg' = "fst (snd ?x)" and ?w2.0 = "snd (snd ?x)"] up_New x
  have 1: "prefix (fst (snd ?x)) = ''[app] ''" by blast
  from prefix_never_changes[where Sprintf = no_verbs and cs = ?ds
      and sdl = "\<lparr>prefix = ''p'', conn = None\<rparr>" and w = down_world
      and ok = "fst ?y" and sdl' = "fst (snd ?y)" and w' = "snd (snd ?y)"] y
  have 2: "prefix (fst (snd ?y)) = ''p''" by simp
  from up_New 1 2 show ?thesis by simp
qed

end
